theory Spec2Isabelle
  imports Complex_Main "HOL-Library.Monad_Syntax" "HOL-Library.Log_Nat"
begin

section \<open>Bet bookkeeping and metrics of soccer\_betting.py\<close>

text \<open>
  The embedding follows \<^verbatim>\<open>src/soccer_betting.py\<close>. Python strings are \<open>string\<close>,
  and an exception is a value of \<open>py_error\<close>. Stakes, odds, amounts and balances are
  real numbers. In settlement, validation, the metrics and the bankroll the arithmetic on
  them is exact: the rounding of IEEE-754 arithmetic, NaN and overflow are outside the
  model there, and the one float the metrics construct on purpose, \<^verbatim>\<open>float('inf')\<close>,
  is a constructor of its own. The combined odds of a parlay are a rounded decimal, whose
  last digit depends on how the product was rounded before; there the floats are
  binary64 numbers, multiplied and rounded as the machine does.
\<close>

subsection \<open>Python values and exceptions\<close>

datatype py_error = ValueError string | OperationalError string

text \<open>What a call returns: \<open>PNone\<close> is Python's \<^verbatim>\<open>None\<close>, the value of a function
  that ends without a \<^verbatim>\<open>return\<close> statement.\<close>

datatype pyval = PNone | PInt int

text \<open>A float that may be \<^verbatim>\<open>float('inf')\<close>.\<close>

datatype pyfloat = Fin real | PosInf

text \<open>\<^verbatim>\<open>sep.join(xs)\<close>\<close>

fun join :: "string \<Rightarrow> string list \<Rightarrow> string" where
  "join sep [] = []"
| "join sep [x] = x"
| "join sep (x # y # ys) = x @ sep @ join sep (y # ys)"

subsection \<open>Settlement engine\<close>

text \<open>
  \<^verbatim>\<open>
  def calculate_profit_loss(stake, odds, result):
      if result == "Win":
          return (stake * odds) - stake
      elif result == "Loss":
          return -stake
      else:  # Push/Refund
          return 0
  \<close>
\<close>

definition calculate_profit_loss :: "real \<Rightarrow> real \<Rightarrow> string \<Rightarrow> real" where
  "calculate_profit_loss stake odds result =
     (if result = ''Win'' then (stake * odds) - stake
      else if result = ''Loss'' then - stake
      else 0)"

text \<open>
  \<^verbatim>\<open>
  def validate_bet_input(stake, odds, result):
      errors = []
      if stake <= 0:
          errors.append("Stake must be positive")
      if odds < 1.0:
          errors.append("Odds must be at least 1.0")
      if result not in ["Pending", "Win", "Loss", "Push"]:
          errors.append("Invalid result")
      return errors
  \<close>
  The list \<open>errors\<close> is threaded through the three independent tests.
\<close>

definition validate_bet_input :: "real \<Rightarrow> real \<Rightarrow> string \<Rightarrow> string list" where
  "validate_bet_input stake odds result =
     (let errors = [];
          errors = (if stake \<le> 0 then errors @ [''Stake must be positive''] else errors);
          errors = (if odds < 1 then errors @ [''Odds must be at least 1.0''] else errors);
          errors = (if result \<notin> set [''Pending'', ''Win'', ''Loss'', ''Push'']
                    then errors @ [''Invalid result''] else errors)
      in errors)"

subsection \<open>Binary64 floats\<close>

text \<open>
  Rounding to the nearest integer, a tie going to the even one.
\<close>

definition round_half_even :: "real \<Rightarrow> int" where
  "round_half_even x =
     (let f = \<lfloor>x\<rfloor>; d = x - of_int f
      in if d < 1 / 2 then f
         else if 1 / 2 < d then f + 1
         else if even f then f else f + 1)"

text \<open>
  A finite binary64 number is \<open>m * 2 powi e\<close> with \<open>\<bar>m\<bar> < 2 ^ 53\<close> and
  \<open>- 1074 \<le> e \<le> 971\<close>. For \<open>x > 0\<close>, \<open>ilog2 x\<close> is the exponent of the binade of
  \<open>x\<close>, that is \<open>\<lfloor>log 2 x\<rfloor>\<close>, computed on integers. \<open>quantum x\<close> is the exponent of
  the spacing of the binary64 numbers around \<open>x\<close>: 52 binary places below the binade,
  and no lower than \<open>- 1074\<close>, where the subnormal numbers lie. \<open>round_binary64 x\<close> is
  the multiple of that spacing nearest to \<open>x\<close>, a tie going to the even multiple: the
  rounding of every arithmetic operation and of every decimal literal.
\<close>

definition ilog2 :: "real \<Rightarrow> int" where
  "ilog2 x = (if 1 \<le> x then bitlen \<lfloor>x\<rfloor> - 1 else - bitlen (\<lceil>1 / x\<rceil> - 1))"

definition quantum :: "real \<Rightarrow> int" where
  "quantum x = max (ilog2 \<bar>x\<bar> - 52) (- 1074)"

definition round_binary64 :: "real \<Rightarrow> real" where
  "round_binary64 x =
     (if x = 0 then 0
      else of_int (round_half_even (x / 2 powi quantum x)) * 2 powi quantum x)"

text \<open>
  A Python float: a finite binary64 number, an infinity or NaN. The two zeros are one
  value (they are equal in Python, and nothing here divides by them). \<open>float_of_real x\<close>
  is the float of the exact value \<open>x\<close>: rounded, and infinite when the rounded value is
  beyond the largest finite number \<open>2 ^ 1024 - 2 ^ 971\<close>.
\<close>

datatype double = Double real | PlusInf | MinusInf | NaN

definition float_of_real :: "real \<Rightarrow> double" where
  "float_of_real x =
     (let r = round_binary64 x
      in if 2 ^ 1024 \<le> r then PlusInf
         else if r \<le> - (2 ^ 1024) then MinusInf
         else Double r)"

text \<open>\<^verbatim>\<open>operator.mul\<close> on two floats.\<close>

fun float_mul :: "double \<Rightarrow> double \<Rightarrow> double" where
  "float_mul (Double a) (Double b) = float_of_real (a * b)"
| "float_mul NaN y = NaN"
| "float_mul x NaN = NaN"
| "float_mul (Double a) PlusInf = (if a = 0 then NaN else if 0 < a then PlusInf else MinusInf)"
| "float_mul (Double a) MinusInf = (if a = 0 then NaN else if 0 < a then MinusInf else PlusInf)"
| "float_mul PlusInf (Double b) = (if b = 0 then NaN else if 0 < b then PlusInf else MinusInf)"
| "float_mul MinusInf (Double b) = (if b = 0 then NaN else if 0 < b then MinusInf else PlusInf)"
| "float_mul PlusInf PlusInf = PlusInf"
| "float_mul PlusInf MinusInf = MinusInf"
| "float_mul MinusInf PlusInf = MinusInf"
| "float_mul MinusInf MinusInf = PlusInf"

text \<open>
  Python's \<^verbatim>\<open>round(x, 2)\<close> on a float: an infinity and NaN round to themselves; a
  finite \<open>x\<close> is rounded, at its exact value, to the closest multiple of \<open>1/100\<close> (to
  the even one when two are equally close), and the result is the float of this decimal.
  The decimal of a finite float is never beyond the largest finite number, so the
  conversion does not overflow.
\<close>

fun py_round2 :: "double \<Rightarrow> double" where
  "py_round2 (Double x) = Double (round_binary64 (of_int (round_half_even (x * 100)) / 100))"
| "py_round2 PlusInf = PlusInf"
| "py_round2 MinusInf = MinusInf"
| "py_round2 NaN = NaN"

subsection \<open>Parlay odds\<close>

text \<open>
  A parlay leg is the dict literal the parlay form builds, always with these six keys;
  it is used as a struct, so it is a record here. The float that the dict holds under
  \<^verbatim>\<open>'odds'\<close> is \<open>float_of_real (leg_odds leg)\<close>: \<open>leg_odds\<close> is the decimal the
  number input shows, as \<open>1.02\<close> in a Python text stands for the float nearest to it.
\<close>

record leg =
  leg_team_a :: string
  leg_team_b :: string
  leg_bet_type :: string
  leg_sport :: string
  leg_odds :: real
  leg_notes :: string

text \<open>
  \<^verbatim>\<open>
  def calculate_parlay_odds(legs):
      if not legs:
          return 1.0
      combined_odds = reduce(operator.mul, [leg['odds'] for leg in legs], 1.0)
      return round(combined_odds, 2)
  \<close>
  \<^verbatim>\<open>reduce\<close> with an initial value is a left fold.
\<close>

definition calculate_parlay_odds :: "leg list \<Rightarrow> double" where
  "calculate_parlay_odds legs =
     (if legs = [] then Double 1
      else let combined_odds =
                 foldl float_mul (Double 1) (map (\<lambda>leg. float_of_real (leg_odds leg)) legs)
           in py_round2 combined_odds)"

subsection \<open>Metrics engine\<close>

text \<open>
  The DataFrame \<^verbatim>\<open>df\<close> that \<^verbatim>\<open>get_bets\<close> hands to the metrics is a list of
  rows with the thirteen expected columns; \<open>col_stake r\<close> is \<^verbatim>\<open>df['stake']\<close> at
  row \<open>r\<close>. \<^verbatim>\<open>df.empty\<close> is \<open>df = []\<close>. Every numeric cell holds a number: a
  NULL of the table, which pandas reads as NaN, is outside the model.
\<close>

record bet =
  col_id :: int
  col_date :: string
  col_team_a :: string
  col_team_b :: string
  col_bet_type :: string
  col_sport :: string
  col_stake :: real
  col_odds :: real
  col_result :: string
  col_profit_loss :: real
  col_notes :: string
  col_is_parlay :: int
  col_parlay_legs :: "string option"

text \<open>
  Division. Dividing by zero raises ZeroDivisionError on Python's floats and yields
  \<^verbatim>\<open>inf\<close> or NaN on the numpy floats a pandas sum returns; HOL's \<open>x / 0\<close> is \<open>0\<close>
  and would hide both. So a quotient is \<open>None\<close> when the divisor is zero, and a metric
  is \<open>None\<close> when computing it would divide by zero somewhere.
\<close>

definition py_div :: "real \<Rightarrow> real \<Rightarrow> real option" where
  "py_div a b = (if b = 0 then None else Some (a / b))"

text \<open>
  \<^verbatim>\<open>Series.mean()\<close>, \<^verbatim>\<open>Series.max()\<close> and \<^verbatim>\<open>Series.min()\<close>: NaN (here \<open>None\<close>)
  on an empty Series.
\<close>

definition mean :: "real list \<Rightarrow> real option" where
  "mean xs = py_div (sum_list xs) (real (length xs))"

fun series_max :: "real list \<Rightarrow> real option" where
  "series_max [] = None"
| "series_max (x # xs) = Some (fold max xs x)"

fun series_min :: "real list \<Rightarrow> real option" where
  "series_min [] = None"
| "series_min (x # xs) = Some (fold min xs x)"

text \<open>
  \<^verbatim>\<open>
  def calculate_metrics(df):
      if df.empty:
          return 0, 0, 0, 0
      total_pl = df['profit_loss'].sum()
      total_stake = df['stake'].sum()
      roi = (total_pl / total_stake * 100) if total_stake > 0 else 0
      win_rate = (df['result'] == 'Win').mean() * 100
      return total_pl, roi, win_rate, len(df)
  \<close>
\<close>

definition calculate_metrics :: "bet list \<Rightarrow> (real \<times> real \<times> real \<times> nat) option" where
  "calculate_metrics df =
     (if df = [] then Some (0, 0, 0, 0)
      else
        let total_pl = sum_list (map col_profit_loss df);
            total_stake = sum_list (map col_stake df)
        in do {
             roi \<leftarrow> (if total_stake > 0
                     then map_option (\<lambda>q. q * 100) (py_div total_pl total_stake)
                     else Some 0);
             win_rate \<leftarrow> map_option (\<lambda>m. m * 100)
                           (mean (map (\<lambda>r. if col_result r = ''Win'' then 1 else 0) df));
             Some (total_pl, roi, win_rate, length df)
           })"

text \<open>
  \<^verbatim>\<open>
  def calculate_advanced_metrics(df):
      if df.empty:
          return {}
      settled_bets = df[df['result'].isin(['Win', 'Loss'])]
      if settled_bets.empty:
          return {}
      wins = settled_bets[settled_bets['result'] == 'Win']
      losses = settled_bets[settled_bets['result'] == 'Loss']
      avg_odds_win = wins['odds'].mean() if not wins.empty else 0
      avg_odds_loss = losses['odds'].mean() if not losses.empty else 0
      biggest_win = settled_bets['profit_loss'].max()
      biggest_loss = settled_bets['profit_loss'].min()
      ev = (wins['profit_loss'].sum() + losses['profit_loss'].sum()) / len(settled_bets) if len(settled_bets) > 0 else 0
      avg_stake = settled_bets['stake'].mean()
      total_won = wins['profit_loss'].sum() + wins['stake'].sum() if not wins.empty else 0
      total_lost = losses['stake'].sum() if not losses.empty else 0
      profit_factor = total_won / total_lost if total_lost > 0 else float('inf')
      return {'avg_win_odds': avg_odds_win, 'avg_loss_odds': avg_odds_loss,
              'biggest_win': biggest_win, 'biggest_loss': biggest_loss,
              'expected_value': ev, 'avg_stake': avg_stake,
              'profit_factor': profit_factor, 'total_settled_bets': len(settled_bets)}
  \<close>
  The returned dict is an association list in the order of the literal; \<^verbatim>\<open>{}\<close> is
  the empty list. The steps that divide are sequenced in the option monad. A conditional
  expression binds weaker than \<open>+\<close> and \<open>/\<close>, so the \<^verbatim>\<open>else 0\<close> of \<open>ev\<close> and
  of \<open>total_won\<close> replaces the whole arithmetic term.
\<close>

definition calculate_advanced_metrics :: "bet list \<Rightarrow> (string \<times> pyfloat) list option" where
  "calculate_advanced_metrics df =
     (if df = [] then Some []
      else
        let settled_bets = filter (\<lambda>r. col_result r \<in> set [''Win'', ''Loss'']) df
        in if settled_bets = [] then Some []
           else
             let wins = filter (\<lambda>r. col_result r = ''Win'') settled_bets;
                 losses = filter (\<lambda>r. col_result r = ''Loss'') settled_bets
             in do {
                  avg_odds_win \<leftarrow> (if wins \<noteq> [] then mean (map col_odds wins) else Some 0);
                  avg_odds_loss \<leftarrow> (if losses \<noteq> [] then mean (map col_odds losses) else Some 0);
                  biggest_win \<leftarrow> series_max (map col_profit_loss settled_bets);
                  biggest_loss \<leftarrow> series_min (map col_profit_loss settled_bets);
                  ev \<leftarrow> (if length settled_bets > 0
                         then py_div (sum_list (map col_profit_loss wins)
                                      + sum_list (map col_profit_loss losses))
                                (real (length settled_bets))
                         else Some 0);
                  avg_stake \<leftarrow> mean (map col_stake settled_bets);
                  let total_won = (if wins \<noteq> []
                                   then sum_list (map col_profit_loss wins)
                                        + sum_list (map col_stake wins)
                                   else 0);
                  let total_lost = (if losses \<noteq> [] then sum_list (map col_stake losses) else 0);
                  profit_factor \<leftarrow> (if total_lost > 0
                                    then map_option Fin (py_div total_won total_lost)
                                    else Some PosInf);
                  Some [(''avg_win_odds'', Fin avg_odds_win),
                        (''avg_loss_odds'', Fin avg_odds_loss),
                        (''biggest_win'', Fin biggest_win),
                        (''biggest_loss'', Fin biggest_loss),
                        (''expected_value'', Fin ev),
                        (''avg_stake'', Fin avg_stake),
                        (''profit_factor'', profit_factor),
                        (''total_settled_bets'', Fin (real (length settled_bets)))]
                })"

subsection \<open>The store\<close>

text \<open>
  The SQLite file \<^verbatim>\<open>soccer_betting.db\<close> is a record of its three tables, each
  \<open>None\<close> while the table does not exist. A row of \<^verbatim>\<open>bets\<close> is its rowid (the
  column \<^verbatim>\<open>id\<close>) and the values of its other columns by name; a column without
  an entry holds NULL, as the rows that exist when a column is added do. Column names
  are compared exactly, as Python's \<^verbatim>\<open>in\<close> compares them (SQLite itself ignores the
  case of ASCII letters in a column name; two names that differ only in case are outside
  the model). The table remembers
  whether \<^verbatim>\<open>id\<close> was declared AUTOINCREMENT (the table that \<^verbatim>\<open>init_db\<close> creates
  is; an older table may not be) and, if so, the largest rowid it ever gave out.
  Opening the file, committing and closing always succeed.
\<close>

datatype sqlval = SNull | SInt int | SReal real | SText string

type_synonym bet_row = "int \<times> (string \<times> sqlval) list"

record bets_table =
  tbl_columns :: "(string \<times> string) list"
  tbl_rows :: "bet_row list"
  autoincrement :: bool
  sqlite_sequence :: int

type_synonym quote_row = "int \<times> string \<times> string \<times> string"

record db =
  bets :: "bets_table option"
  quotes :: "quote_row list option"
  bankroll :: "(int \<times> real) list option"

text \<open>A call returns the exception it raised or its value, and the store it leaves.\<close>

type_synonym call_result = "(py_error + pyval) \<times> db"

subsection \<open>Schema manager\<close>

text \<open>
  \<^verbatim>\<open>
  new_columns = {'team_a': 'TEXT', 'team_b': 'TEXT', 'bet_type': 'TEXT',
                 'sport': 'TEXT', 'is_parlay': 'INTEGER', 'parlay_legs': 'TEXT'}
  for column_name, column_type in new_columns.items():
      if column_name not in existing_columns:
          c.execute(f"ALTER TABLE bets ADD COLUMN {column_name} {column_type}")
  \<close>
  \<open>existing_columns\<close> is read once, before the loop.
\<close>

definition new_columns :: "(string \<times> string) list" where
  "new_columns =
     [(''team_a'', ''TEXT''), (''team_b'', ''TEXT''), (''bet_type'', ''TEXT''),
      (''sport'', ''TEXT''), (''is_parlay'', ''INTEGER''), (''parlay_legs'', ''TEXT'')]"

definition alter_table_add_column :: "string \<Rightarrow> string \<Rightarrow> bets_table \<Rightarrow> bets_table" where
  "alter_table_add_column column_name column_type t =
     t\<lparr>tbl_columns := tbl_columns t @ [(column_name, column_type)]\<rparr>"

fun add_new_columns :: "string list \<Rightarrow> (string \<times> string) list \<Rightarrow> bets_table \<Rightarrow> bets_table" where
  "add_new_columns existing_columns [] t = t"
| "add_new_columns existing_columns ((column_name, column_type) # rest) t =
     (if column_name \<notin> set existing_columns
      then add_new_columns existing_columns rest (alter_table_add_column column_name column_type t)
      else add_new_columns existing_columns rest t)"

text \<open>The table of \<^verbatim>\<open>CREATE TABLE IF NOT EXISTS bets (...)\<close>.\<close>

definition create_bets_table :: bets_table where
  "create_bets_table =
     \<lparr>tbl_columns =
        [(''id'', ''INTEGER''), (''date'', ''TEXT''), (''team_a'', ''TEXT''),
         (''team_b'', ''TEXT''), (''bet_type'', ''TEXT''), (''sport'', ''TEXT''),
         (''stake'', ''REAL''), (''odds'', ''REAL''), (''result'', ''TEXT''),
         (''profit_loss'', ''REAL''), (''notes'', ''TEXT''), (''is_parlay'', ''INTEGER''),
         (''parlay_legs'', ''TEXT'')],
      tbl_rows = [], autoincrement = True, sqlite_sequence = 0\<rparr>"

text \<open>
  \<^verbatim>\<open>INSERT OR IGNORE INTO bankroll (id, balance) VALUES (1, 0)\<close>: \<^verbatim>\<open>id\<close> is the
  primary key, so the row is added only when no row has id 1.
\<close>

definition insert_or_ignore_bankroll :: "(int \<times> real) list \<Rightarrow> (int \<times> real) list" where
  "insert_or_ignore_bankroll rs = (if 1 \<in> set (map fst rs) then rs else rs @ [(1, 0)])"

text \<open>
  \<^verbatim>\<open>
  def init_db():
      c.execute("SELECT name FROM sqlite_master WHERE type='table' AND name='bets'")
      table_exists = c.fetchone()
      if table_exists:
          c.execute("PRAGMA table_info(bets)")
          columns = [column[1] for column in c.fetchall()]
          existing_columns = set(columns)
          ... add the new columns ...
      else:
          c.execute('CREATE TABLE IF NOT EXISTS bets (...)')
      c.execute('CREATE TABLE IF NOT EXISTS quotes (...)')
      c.execute('CREATE TABLE IF NOT EXISTS bankroll (id INTEGER PRIMARY KEY, balance REAL)')
      c.execute('INSERT OR IGNORE INTO bankroll (id, balance) VALUES (1, 0)')
      conn.commit()
  \<close>
\<close>

definition init_db :: "db \<Rightarrow> call_result" where
  "init_db s =
     (let s1 = (case bets s of
                  Some t \<Rightarrow>
                    let existing_columns = map fst (tbl_columns t)
                    in s\<lparr>bets := Some (add_new_columns existing_columns new_columns t)\<rparr>
                | None \<Rightarrow> s\<lparr>bets := Some create_bets_table\<rparr>);
          s2 = (case quotes s1 of Some q \<Rightarrow> s1 | None \<Rightarrow> s1\<lparr>quotes := Some []\<rparr>);
          s3 = (case bankroll s2 of Some b \<Rightarrow> s2 | None \<Rightarrow> s2\<lparr>bankroll := Some []\<rparr>);
          s4 = s3\<lparr>bankroll := map_option insert_or_ignore_bankroll (bankroll s3)\<rparr>
      in (Inr PNone, s4))"

subsection \<open>Bet ledger store\<close>

text \<open>
  The rowid of an inserted row is one more than the largest rowid in the table (1 in an
  empty table); with AUTOINCREMENT, one more than the largest rowid the table ever held.
\<close>

definition next_rowid :: "bets_table \<Rightarrow> int" where
  "next_rowid t =
     (let largest = (case map fst (tbl_rows t) of [] \<Rightarrow> 0 | i # ids \<Rightarrow> fold max ids i)
      in (if autoincrement t then max largest (sqlite_sequence t) else largest) + 1)"

text \<open>
  \<^verbatim>\<open>INSERT INTO bets (c1, ..., cn) VALUES (?, ..., ?)\<close>: fails when the table or one
  of the named columns does not exist; otherwise appends one row under a new rowid.
\<close>

definition sql_insert_bet :: "(string \<times> sqlval) list \<Rightarrow> db \<Rightarrow> py_error + db" where
  "sql_insert_bet vals s =
     (case bets s of
        None \<Rightarrow> Inl (OperationalError ''no such table: bets'')
      | Some t \<Rightarrow>
          (case filter (\<lambda>c. c \<notin> set (map fst (tbl_columns t))) (map fst vals) of
             c # cs \<Rightarrow> Inl (OperationalError (''table bets has no column named '' @ c))
           | [] \<Rightarrow>
               let new_id = next_rowid t
               in Inr (s\<lparr>bets := Some (t\<lparr>tbl_rows := tbl_rows t @ [(new_id, vals)],
                                          sqlite_sequence :=
                                            (if autoincrement t then new_id
                                             else sqlite_sequence t)\<rparr>)\<rparr>)))"

text \<open>
  \<^verbatim>\<open>UPDATE bets SET c1=?, ..., cn=? WHERE id=?\<close>: fails when the table, \<^verbatim>\<open>id\<close> or
  one of the named columns does not exist; otherwise overwrites the named columns of
  every row whose id is the given one (of no row, when there is none).
\<close>

definition set_columns :: "(string \<times> sqlval) list \<Rightarrow> (string \<times> sqlval) list \<Rightarrow> (string \<times> sqlval) list" where
  "set_columns vals old = vals @ filter (\<lambda>(c, v). c \<notin> set (map fst vals)) old"

definition sql_update_bet :: "(string \<times> sqlval) list \<Rightarrow> int \<Rightarrow> db \<Rightarrow> py_error + db" where
  "sql_update_bet vals bet_id s =
     (case bets s of
        None \<Rightarrow> Inl (OperationalError ''no such table: bets'')
      | Some t \<Rightarrow>
          (case filter (\<lambda>c. c \<notin> set (map fst (tbl_columns t))) (map fst vals @ [''id'']) of
             c # cs \<Rightarrow> Inl (OperationalError (''no such column: '' @ c))
           | [] \<Rightarrow>
               Inr (s\<lparr>bets := Some (t\<lparr>tbl_rows :=
                      map (\<lambda>(i, old). if i = bet_id then (i, set_columns vals old) else (i, old))
                        (tbl_rows t)\<rparr>)\<rparr>)))"

text \<open>The twelve values both statements bind, in the order of the statement.\<close>

definition bet_values ::
  "string \<Rightarrow> string \<Rightarrow> string \<Rightarrow> string \<Rightarrow> string \<Rightarrow> real \<Rightarrow> real \<Rightarrow> string \<Rightarrow> real
   \<Rightarrow> string \<Rightarrow> bool \<Rightarrow> string option \<Rightarrow> (string \<times> sqlval) list" where
  "bet_values date team_a team_b bet_type sport stake odds result profit_loss notes
       is_parlay parlay_legs_str =
     [(''date'', SText date), (''team_a'', SText team_a), (''team_b'', SText team_b),
      (''bet_type'', SText bet_type), (''sport'', SText sport), (''stake'', SReal stake),
      (''odds'', SReal odds), (''result'', SText result),
      (''profit_loss'', SReal profit_loss), (''notes'', SText notes),
      (''is_parlay'', SInt (if is_parlay then 1 else 0)),
      (''parlay_legs'', (case parlay_legs_str of None \<Rightarrow> SNull | Some j \<Rightarrow> SText j))]"

text \<open>
  \<^verbatim>\<open>
  def add_bet(date, team_a, team_b, bet_type, sport, stake, odds, result,
              notes="", is_parlay=False, parlay_legs=None):
      errors = validate_bet_input(stake, odds, result)
      if errors:
          raise ValueError("; ".join(errors))
      conn = sqlite3.connect('soccer_betting.db')
      c = conn.cursor()
      profit_loss = calculate_profit_loss(stake, odds, result)
      parlay_legs_str = None
      if parlay_legs and isinstance(parlay_legs, list):
          parlay_legs_str = json.dumps(parlay_legs)
      c.execute('INSERT INTO bets (date, ..., parlay_legs) VALUES (?, ..., ?)', (...))
      conn.commit()
      conn.close()
  \<close>
  The function ends without a \<^verbatim>\<open>return\<close>. \<^verbatim>\<open>json.dumps\<close> is library code and a
  parameter here; \<^verbatim>\<open>parlay_legs\<close> is \<open>None\<close> or a list, and an empty list is false.
\<close>

definition serialize_legs :: "(leg list \<Rightarrow> string) \<Rightarrow> leg list option \<Rightarrow> string option" where
  "serialize_legs json_dumps parlay_legs =
     (case parlay_legs of
        None \<Rightarrow> None
      | Some [] \<Rightarrow> None
      | Some (l # ls) \<Rightarrow> Some (json_dumps (l # ls)))"

definition add_bet ::
  "(leg list \<Rightarrow> string) \<Rightarrow> string \<Rightarrow> string \<Rightarrow> string \<Rightarrow> string \<Rightarrow> string \<Rightarrow> real \<Rightarrow> real
   \<Rightarrow> string \<Rightarrow> string \<Rightarrow> bool \<Rightarrow> leg list option \<Rightarrow> db \<Rightarrow> call_result" where
  "add_bet json_dumps date team_a team_b bet_type sport stake odds result notes
       is_parlay parlay_legs s =
     (let errors = validate_bet_input stake odds result
      in if errors \<noteq> [] then (Inl (ValueError (join ''; '' errors)), s)
         else
           let profit_loss = calculate_profit_loss stake odds result;
               parlay_legs_str = serialize_legs json_dumps parlay_legs
           in (case sql_insert_bet
                      (bet_values date team_a team_b bet_type sport stake odds result
                         profit_loss notes is_parlay parlay_legs_str) s of
                 Inl e \<Rightarrow> (Inl e, s)
               | Inr s' \<Rightarrow> (Inr PNone, s')))"

text \<open>
  \<^verbatim>\<open>update_bet(bet_id, date, ...)\<close> is the same text with the statement
  \<^verbatim>\<open>UPDATE bets SET date=?, ..., parlay_legs=? WHERE id=?\<close>; it does not look at
  the number of rows the statement changed, and ends without a \<^verbatim>\<open>return\<close>.
\<close>

definition update_bet ::
  "(leg list \<Rightarrow> string) \<Rightarrow> int \<Rightarrow> string \<Rightarrow> string \<Rightarrow> string \<Rightarrow> string \<Rightarrow> string \<Rightarrow> real
   \<Rightarrow> real \<Rightarrow> string \<Rightarrow> string \<Rightarrow> bool \<Rightarrow> leg list option \<Rightarrow> db \<Rightarrow> call_result" where
  "update_bet json_dumps bet_id date team_a team_b bet_type sport stake odds result notes
       is_parlay parlay_legs s =
     (let errors = validate_bet_input stake odds result
      in if errors \<noteq> [] then (Inl (ValueError (join ''; '' errors)), s)
         else
           let profit_loss = calculate_profit_loss stake odds result;
               parlay_legs_str = serialize_legs json_dumps parlay_legs
           in (case sql_update_bet
                      (bet_values date team_a team_b bet_type sport stake odds result
                         profit_loss notes is_parlay parlay_legs_str) bet_id s of
                 Inl e \<Rightarrow> (Inl e, s)
               | Inr s' \<Rightarrow> (Inr PNone, s')))"

subsection \<open>Bankroll ledger\<close>

text \<open>
  \<^verbatim>\<open>UPDATE bankroll SET balance = f(balance) WHERE id = 1\<close>: fails when the table
  does not exist.
\<close>

definition sql_update_balance :: "(real \<Rightarrow> real) \<Rightarrow> db \<Rightarrow> call_result" where
  "sql_update_balance f s =
     (case bankroll s of
        None \<Rightarrow> (Inl (OperationalError ''no such table: bankroll''), s)
      | Some rs \<Rightarrow>
          (Inr PNone,
           s\<lparr>bankroll := Some (map (\<lambda>(i, balance). if i = 1 then (i, f balance) else (i, balance)) rs)\<rparr>))"

text \<open>
  \<^verbatim>\<open>
  def update_bankroll(amount, operation="add"):
      if operation == "add":
          c.execute('UPDATE bankroll SET balance = balance + ? WHERE id = 1', (amount,))
      elif operation == "set":
          c.execute('UPDATE bankroll SET balance = ? WHERE id = 1', (amount,))
      elif operation == "subtract":
          c.execute('UPDATE bankroll SET balance = balance - ? WHERE id = 1', (amount,))
      conn.commit()
      conn.close()
  \<close>
  There is no final \<^verbatim>\<open>else\<close>: any other operation executes no statement.
\<close>

definition update_bankroll :: "real \<Rightarrow> string \<Rightarrow> db \<Rightarrow> call_result" where
  "update_bankroll amount operation s =
     (if operation = ''add'' then sql_update_balance (\<lambda>balance. balance + amount) s
      else if operation = ''set'' then sql_update_balance (\<lambda>balance. amount) s
      else if operation = ''subtract'' then sql_update_balance (\<lambda>balance. balance - amount) s
      else (Inr PNone, s))"

subsection \<open>Stores and rows to run the operations on\<close>

text \<open>A database file that has no table yet.\<close>

definition empty_db :: db where
  "empty_db = \<lparr>bets = None, quotes = None, bankroll = None\<rparr>"

text \<open>The twelve columns that \<^verbatim>\<open>add_bet\<close> and \<^verbatim>\<open>update_bet\<close> name.\<close>

definition bet_columns :: "string list" where
  "bet_columns =
     [''date'', ''team_a'', ''team_b'', ''bet_type'', ''sport'', ''stake'', ''odds'',
      ''result'', ''profit_loss'', ''notes'', ''is_parlay'', ''parlay_legs'']"

text \<open>
  The examples below add single bets (\<^verbatim>\<open>parlay_legs=None\<close>), for which
  \<^verbatim>\<open>json.dumps\<close> is not called; they run with this serializer in its place.
\<close>

definition example_dumps :: "leg list \<Rightarrow> string" where
  "example_dumps legs = ''[]''"

text \<open>
  The store after \<^verbatim>\<open>init_db()\<close> on a new file and one
  \<^verbatim>\<open>add_bet("2024-01-01", "Home", "Away", "Moneyline", "Soccer", 100, 2, "Win")\<close>.
\<close>

definition one_bet_db :: db where
  "one_bet_db =
     \<lparr>bets = Some (create_bets_table
        \<lparr>tbl_rows := [(1, bet_values ''2024-01-01'' ''Home'' ''Away'' ''Moneyline'' ''Soccer''
                           100 2 ''Win'' 100 [] False None)],
         sqlite_sequence := 1\<rparr>),
      quotes = Some [], bankroll = Some [(1, 0)]\<rparr>"

text \<open>The DataFrame row of a single bet as \<^verbatim>\<open>add_bet\<close> stores it.\<close>

definition single_bet :: "int \<Rightarrow> real \<Rightarrow> real \<Rightarrow> string \<Rightarrow> bet" where
  "single_bet bet_id stake odds result =
     \<lparr>col_id = bet_id, col_date = ''2024-01-01'', col_team_a = ''Home'', col_team_b = ''Away'',
      col_bet_type = ''Moneyline'', col_sport = ''Soccer'', col_stake = stake, col_odds = odds,
      col_result = result, col_profit_loss = calculate_profit_loss stake odds result,
      col_notes = [], col_is_parlay = 0, col_parlay_legs = None\<rparr>"

section \<open>Properties\<close>

subsection \<open>Auxiliary facts\<close>

lemma bitlen_pos: "0 < m \<Longrightarrow> 1 \<le> bitlen m"
  by (auto simp: bitlen_alt_def)

text \<open>\<open>ilog2 x\<close> is the exponent of the binade of \<open>x\<close>.\<close>

lemma ilog2_bounds_ge1:
  assumes "1 \<le> x"
  shows "2 powi ilog2 x \<le> x \<and> x < 2 powi (ilog2 x + 1)"
proof -
  from assms have pos: "0 < \<lfloor>x\<rfloor>" by linarith
  let ?b = "bitlen \<lfloor>x\<rfloor>"
  from bitlen_bounds [OF pos] have b: "2 ^ nat (?b - 1) \<le> \<lfloor>x\<rfloor>" "\<lfloor>x\<rfloor> < 2 ^ nat ?b" by auto
  from pos have b1: "1 \<le> ?b" by (rule bitlen_pos)
  have "(2::real) ^ nat (?b - 1) \<le> of_int \<lfloor>x\<rfloor>"
    using b(1) by simp
  also have "\<dots> \<le> x" by simp
  finally have lo: "(2::real) ^ nat (?b - 1) \<le> x" .
  have "\<lfloor>x\<rfloor> + 1 \<le> 2 ^ nat ?b" using b(2) by simp
  then have "of_int (\<lfloor>x\<rfloor> + 1) \<le> (2::real) ^ nat ?b"
    by (simp only: numeral_power_le_of_int_cancel_iff of_int_le_numeral_power_cancel_iff)
  moreover have "x < of_int (\<lfloor>x\<rfloor> + 1)" by linarith
  ultimately have hi: "x < (2::real) ^ nat ?b" by linarith
  from assms b1 lo hi show ?thesis
    by (simp add: ilog2_def power_int_nonneg_exp)
qed

lemma ilog2_bounds_lt1:
  assumes "0 < x" "x < 1"
  shows "2 powi ilog2 x \<le> x \<and> x < 2 powi (ilog2 x + 1)"
proof -
  from assms have "1 < 1 / x" by simp
  then have m: "0 < \<lceil>1 / x\<rceil> - 1" by linarith
  let ?m = "\<lceil>1 / x\<rceil> - 1"
  let ?b = "bitlen ?m"
  from bitlen_bounds [OF m] have b: "2 ^ nat (?b - 1) \<le> ?m" "?m < 2 ^ nat ?b" by auto
  from m have b1: "1 \<le> ?b" by (rule bitlen_pos)
  have il: "ilog2 x = - ?b" using assms by (simp add: ilog2_def)
  have "\<lceil>1 / x\<rceil> \<le> 2 ^ nat ?b" using b(2) by simp
  then have "of_int \<lceil>1 / x\<rceil> \<le> (2::real) ^ nat ?b"
    by (simp only: of_int_le_numeral_power_cancel_iff)
  moreover have "1 / x \<le> of_int \<lceil>1 / x\<rceil>" by simp
  ultimately have "1 / x \<le> 2 ^ nat ?b" by linarith
  with assms have "1 / 2 ^ nat ?b \<le> x"
    by (simp add: field_simps)
  moreover have "(2::real) powi (- ?b) = 1 / 2 ^ nat ?b"
    using b1 by (simp add: power_int_minus_divide power_int_nonneg_exp)
  ultimately have lo: "2 powi ilog2 x \<le> x" by (simp add: il)
  have "(2::real) ^ nat (?b - 1) \<le> of_int ?m"
    using b(1) by (simp only: numeral_power_le_of_int_cancel_iff)
  moreover have "of_int ?m < 1 / x" by linarith
  ultimately have "2 ^ nat (?b - 1) < 1 / x" by linarith
  with assms have "x < 1 / 2 ^ nat (?b - 1)"
    by (simp add: field_simps)
  moreover have "(2::real) powi (- ?b + 1) = 1 / 2 ^ nat (?b - 1)"
  proof -
    have "(2::real) powi (- ?b + 1) = 2 powi (- (?b - 1))" by simp
    also have "\<dots> = 1 / 2 powi (?b - 1)" by (rule power_int_minus_divide)
    also have "\<dots> = 1 / 2 ^ nat (?b - 1)" using b1 by (simp add: power_int_nonneg_exp)
    finally show ?thesis .
  qed
  ultimately have hi: "x < 2 powi (ilog2 x + 1)" by (simp add: il)
  from lo hi show ?thesis ..
qed

lemma ilog2_bounds: "0 < x \<Longrightarrow> 2 powi ilog2 x \<le> x \<and> x < 2 powi (ilog2 x + 1)"
  using ilog2_bounds_ge1 [of x] ilog2_bounds_lt1 [of x] by (cases "1 \<le> x") auto

lemma round_half_even_near: "\<bar>of_int (round_half_even x) - x\<bar> \<le> 1 / 2"
  unfolding round_half_even_def Let_def
  by (auto simp: abs_if) linarith+

lemma round_half_even_of_int: "round_half_even (of_int k) = k"
  by (simp add: round_half_even_def)

text \<open>
  Rounding moves a number by at most half the spacing, which for a number that is not
  subnormal is at most the \<open>2 ^ 53\<close>th part of it.
\<close>

lemma round_binary64_error: "\<bar>round_binary64 x - x\<bar> \<le> 2 powi quantum x / 2"
proof (cases "x = 0")
  case True
  then show ?thesis by (simp add: round_binary64_def)
next
  case False
  let ?q = "(2::real) powi quantum x"
  have q: "0 < ?q" by simp
  have "\<bar>of_int (round_half_even (x / ?q)) - x / ?q\<bar> \<le> 1 / 2"
    by (rule round_half_even_near)
  then have "\<bar>of_int (round_half_even (x / ?q)) - x / ?q\<bar> * ?q \<le> 1 / 2 * ?q"
    using q by (intro mult_right_mono) simp_all
  moreover have "\<bar>of_int (round_half_even (x / ?q)) - x / ?q\<bar> * ?q
                 = \<bar>of_int (round_half_even (x / ?q)) * ?q - x\<bar>"
  proof -
    have "\<bar>of_int (round_half_even (x / ?q)) - x / ?q\<bar> * ?q
          = \<bar>(of_int (round_half_even (x / ?q)) - x / ?q) * ?q\<bar>"
      using q by (simp add: abs_mult)
    also have "(of_int (round_half_even (x / ?q)) - x / ?q) * ?q
               = of_int (round_half_even (x / ?q)) * ?q - x"
      using q by (simp add: field_simps)
    finally show ?thesis .
  qed
  ultimately show ?thesis
    using False by (simp add: round_binary64_def)
qed


text \<open>A binary64 number rounds to itself.\<close>

lemma round_binary64_exact:
  assumes "\<bar>m\<bar> < 2 ^ 53" and "- 1074 \<le> e"
  shows "round_binary64 (of_int m * 2 powi e) = of_int m * 2 powi e"
proof (cases "m = 0")
  case True
  then show ?thesis by (simp add: round_binary64_def)
next
  case False
  let ?d = "of_int m * (2::real) powi e"
  have d0: "?d \<noteq> 0" using False by simp
  then have pos: "0 < \<bar>?d\<bar>" by simp
  have "\<bar>of_int m :: real\<bar> < 2 ^ 53"
    using assms(1) by (metis of_int_abs of_int_less_numeral_power_cancel_iff)
  then have "\<bar>?d\<bar> < 2 ^ 53 * 2 powi e"
    by (simp add: abs_mult)
  also have "\<dots> = 2 powi (53 + e)"
    by (simp add: power_int_add)
  finally have "\<bar>?d\<bar> < 2 powi (53 + e)" .
  with ilog2_bounds [OF pos] have "(2::real) powi ilog2 \<bar>?d\<bar> < 2 powi (53 + e)" by linarith
  then have "ilog2 \<bar>?d\<bar> < 53 + e"
    using power_int_increasing [of "53 + e" "ilog2 \<bar>?d\<bar>" "2::real"]
    by (cases "53 + e \<le> ilog2 \<bar>?d\<bar>") simp_all
  with assms(2) have q: "quantum ?d \<le> e" by (simp add: quantum_def)
  have "?d / 2 powi quantum ?d = of_int m * 2 powi (e - quantum ?d)"
    by (simp add: power_int_diff)
  also have "\<dots> = of_int m * 2 ^ nat (e - quantum ?d)"
    using q by (simp add: power_int_nonneg_exp)
  also have "\<dots> = of_int (m * 2 ^ nat (e - quantum ?d))" by simp
  finally have "round_half_even (?d / 2 powi quantum ?d) = m * 2 ^ nat (e - quantum ?d)"
    by (simp only: round_half_even_of_int)
  then have "round_binary64 ?d = of_int (m * 2 ^ nat (e - quantum ?d)) * 2 powi quantum ?d"
    using d0 by (simp add: round_binary64_def)
  also have "\<dots> = of_int m * (2 powi (e - quantum ?d) * 2 powi quantum ?d)"
    using q by (simp add: power_int_nonneg_exp)
  also have "2 powi (e - quantum ?d) * (2::real) powi quantum ?d = 2 powi e"
    by (simp flip: power_int_add)
  finally show ?thesis .
qed


text \<open>
  A product of two finite floats, when finite, is the exact product rounded: it is off
  by at most half the spacing of the floats there.
\<close>

lemma float_mul_correctly_rounded:
  assumes "float_mul (Double a) (Double b) = Double r"
  shows "\<bar>r - a * b\<bar> \<le> 2 powi quantum (a * b) / 2"
proof -
  from assms have "r = round_binary64 (a * b)"
    by (simp add: float_of_real_def Let_def split: if_splits)
  then show ?thesis
    by (simp only: round_binary64_error)
qed

text \<open>The definitions that evaluate a float computation on decimals.\<close>

lemmas float_eval = calculate_parlay_odds_def float_of_real_def Let_def round_binary64_def
  quantum_def ilog2_def compute_bitlen round_half_even_def

text \<open>
  \<^verbatim>\<open>round(2.675, 2)\<close> is \<^verbatim>\<open>2.67\<close>: the float of 2.675 lies below the tie.
\<close>

lemma py_round2_below_tie: "py_round2 (float_of_real (2675 / 1000)) = float_of_real (267 / 100)"
  by (simp add: float_eval)

lemma sum_list_nonneg: "(\<And>x. x \<in> set xs \<Longrightarrow> 0 \<le> f x) \<Longrightarrow> 0 \<le> sum_list (map f xs)"
  for f :: "'a \<Rightarrow> real"
  by (induction xs) auto

lemma mean_nonempty: "xs \<noteq> [] \<Longrightarrow> mean xs = Some (sum_list xs / real (length xs))"
  by (simp add: mean_def py_div_def)

lemma series_max_nonempty: "xs \<noteq> [] \<Longrightarrow> \<exists>m. series_max xs = Some m"
  by (cases xs) simp_all

lemma series_min_nonempty: "xs \<noteq> [] \<Longrightarrow> \<exists>m. series_min xs = Some m"
  by (cases xs) simp_all

lemma settled_win: "((a = ''Win'' \<or> a = ''Loss'') \<and> a = ''Win'') = (a = ''Win'')"
  by auto

lemma settled_loss: "((a = ''Win'' \<or> a = ''Loss'') \<and> a = ''Loss'') = (a = ''Loss'')"
  by auto

text \<open>The advanced metrics of a ledger with a settled record, one step at a time.\<close>

lemma advanced_metrics_settled:
  assumes "filter (\<lambda>r. col_result r \<in> set [''Win'', ''Loss'']) df \<noteq> []"
  shows "\<exists>avg_odds_win avg_odds_loss biggest_win biggest_loss ev avg_stake.
     calculate_advanced_metrics df =
       Some [(''avg_win_odds'', Fin avg_odds_win),
             (''avg_loss_odds'', Fin avg_odds_loss),
             (''biggest_win'', Fin biggest_win),
             (''biggest_loss'', Fin biggest_loss),
             (''expected_value'', Fin ev),
             (''avg_stake'', Fin avg_stake),
             (''profit_factor'',
                if sum_list (map col_stake (filter (\<lambda>r. col_result r = ''Loss'') df)) > 0
                then Fin ((sum_list (map col_profit_loss (filter (\<lambda>r. col_result r = ''Win'') df))
                           + sum_list (map col_stake (filter (\<lambda>r. col_result r = ''Win'') df)))
                          / sum_list (map col_stake (filter (\<lambda>r. col_result r = ''Loss'') df)))
                else PosInf),
             (''total_settled_bets'',
                Fin (real (length (filter (\<lambda>r. col_result r \<in> set [''Win'', ''Loss'']) df))))]"
proof -
  let ?settled = "filter (\<lambda>r. col_result r \<in> set [''Win'', ''Loss'']) df"
  from assms have df: "df \<noteq> []" by auto
  from assms obtain mx where mx: "series_max (map col_profit_loss ?settled) = Some mx"
    using series_max_nonempty [of "map col_profit_loss ?settled"] by auto
  from assms obtain mn where mn: "series_min (map col_profit_loss ?settled) = Some mn"
    using series_min_nonempty [of "map col_profit_loss ?settled"] by auto
  from assms have len: "0 < length ?settled" by simp
  have avg: "mean (map col_stake ?settled)
             = Some (sum_list (map col_stake ?settled) / real (length ?settled))"
    using assms by (simp add: mean_nonempty)
  show ?thesis
    unfolding calculate_advanced_metrics_def Let_def
    using df assms mx mn len avg
    by (auto simp add: settled_win settled_loss mean_nonempty py_div_def)
qed


lemma add_new_columns_eq:
  "add_new_columns existing cs t =
     t\<lparr>tbl_columns := tbl_columns t @ filter (\<lambda>c. fst c \<notin> set existing) cs\<rparr>"
  by (induction existing cs t rule: add_new_columns.induct)
     (simp_all add: alter_table_add_column_def)

lemma add_new_columns_present:
  "fst ` set cs \<subseteq> set existing \<Longrightarrow> add_new_columns existing cs t = t"
  by (simp add: add_new_columns_eq filter_empty_conv image_subset_iff)

lemma add_new_columns_twice:
  "add_new_columns (map fst (tbl_columns (add_new_columns (map fst (tbl_columns t)) cs t))) cs
     (add_new_columns (map fst (tbl_columns t)) cs t)
   = add_new_columns (map fst (tbl_columns t)) cs t"
  by (rule add_new_columns_present) (auto simp: add_new_columns_eq)

lemma add_new_columns_created:
  "add_new_columns (map fst (tbl_columns create_bets_table)) new_columns create_bets_table
   = create_bets_table"
  by (rule add_new_columns_present) (simp add: create_bets_table_def new_columns_def)

lemma insert_or_ignore_twice:
  "insert_or_ignore_bankroll (insert_or_ignore_bankroll rs) = insert_or_ignore_bankroll rs"
  by (simp add: insert_or_ignore_bankroll_def)

lemma init_db_twice: "init_db (snd (init_db s)) = (Inr PNone, snd (init_db s))"
  by (cases "bets s"; cases "quotes s"; cases "bankroll s")
     (simp_all add: init_db_def Let_def add_new_columns_twice add_new_columns_created
        insert_or_ignore_twice)

lemma init_db_keeps_rows:
  "bankroll s = Some rs \<Longrightarrow> 1 \<in> fst ` set rs \<Longrightarrow> bankroll (snd (init_db s)) = Some rs"
  by (cases "bets s"; cases "quotes s")
     (simp_all add: init_db_def Let_def insert_or_ignore_bankroll_def)

lemma init_db_keeps_bets:
  "bets s = Some t \<Longrightarrow> map_option tbl_rows (bets (snd (init_db s))) = Some (tbl_rows t)"
  by (cases "quotes s"; cases "bankroll s")
     (simp_all add: init_db_def Let_def add_new_columns_eq)

lemma init_db_empty:
  "snd (init_db empty_db)
   = \<lparr>bets = Some create_bets_table, quotes = Some [], bankroll = Some [(1, 0)]\<rparr>"
  by (simp add: init_db_def empty_db_def insert_or_ignore_bankroll_def)

lemma fold_max_ge_start: "a \<le> fold max xs (a::int)"
proof (induction xs arbitrary: a)
  case Nil
  show ?case by simp
next
  case (Cons x xs)
  have "a \<le> max x a" by simp
  also have "max x a \<le> fold max xs (max x a)" by (rule Cons.IH)
  finally show ?case by simp
qed

lemma fold_max_ge_member: "x \<in> set xs \<Longrightarrow> x \<le> fold max xs (a::int)"
proof (induction xs arbitrary: a)
  case Nil
  then show ?case by simp
next
  case (Cons y ys)
  show ?case
  proof (cases "x = y")
    case True
    have "y \<le> max y a" by simp
    also have "max y a \<le> fold max ys (max y a)" by (rule fold_max_ge_start)
    finally show ?thesis using True by simp
  next
    case False
    with Cons.prems have "x \<in> set ys" by simp
    then show ?thesis using Cons.IH by simp
  qed
qed

lemma next_rowid_fresh: "next_rowid t \<notin> fst ` set (tbl_rows t)"
proof
  assume "next_rowid t \<in> fst ` set (tbl_rows t)"
  then have mem: "next_rowid t \<in> set (map fst (tbl_rows t))" by simp
  then obtain i ids where eq: "map fst (tbl_rows t) = i # ids"
    by (cases "map fst (tbl_rows t)") auto
  from mem have "next_rowid t \<le> fold max ids i"
    unfolding eq using fold_max_ge_start [of i ids] fold_max_ge_member [of "next_rowid t" ids i]
    by auto
  then show False
    by (simp add: next_rowid_def eq Let_def split: if_splits)
qed

lemma map_fst_bet_values:
  "map fst (bet_values date team_a team_b bet_type sport stake odds result profit_loss notes
       is_parlay parlay_legs_str) = bet_columns"
  by (simp add: bet_values_def bet_columns_def)

lemma filter_missing_empty: "set cs \<subseteq> A \<Longrightarrow> filter (\<lambda>c. c \<notin> A) cs = []"
  by (auto simp: filter_empty_conv)

lemma validate_example: "validate_bet_input 100 2 ''Win'' = []"
  by (simp add: validate_bet_input_def)

lemma one_bet_db_columns:
  "bets one_bet_db = Some t \<Longrightarrow> set (bet_columns @ [''id'']) \<subseteq> set (map fst (tbl_columns t))"
  by (auto simp: one_bet_db_def bet_columns_def create_bets_table_def)

subsection \<open>Settlement\<close>

text \<open>
  C1. For every stake \<open>> 0\<close> and odds \<open>\<ge> 1\<close>, settlement returns
  \<open>stake * (odds - 1)\<close> for the result "Win", \<open>- stake\<close> for "Loss", and \<open>0\<close>
  for "Push" and for "Pending".
\<close>

theorem calculate_profit_loss_cases:
  assumes "0 < stake" and "1 \<le> odds"
  shows "calculate_profit_loss stake odds ''Win'' = stake * (odds - 1)
       \<and> calculate_profit_loss stake odds ''Loss'' = - stake
       \<and> calculate_profit_loss stake odds ''Push'' = 0
       \<and> calculate_profit_loss stake odds ''Pending'' = 0"
  by (simp add: calculate_profit_loss_def algebra_simps)

theorem calculate_profit_loss_cases_witness:
  "(0::real) < 100 \<and> (1::real) \<le> 2
   \<and> calculate_profit_loss 100 2 ''Win'' = 100
   \<and> calculate_profit_loss 100 2 ''Loss'' = - 100
   \<and> calculate_profit_loss 100 2 ''Push'' = 0
   \<and> calculate_profit_loss 100 2 ''Pending'' = 0"
  using calculate_profit_loss_cases [of 100 2] by simp

subsection \<open>Validation\<close>

text \<open>
  C2. For every triple (stake, odds, result), validation returns all violated rules at
  once: one violation for stake \<open>\<le> 0\<close>, one for odds \<open>< 1\<close>, one for a result
  outside Pending, Win, Loss, Push, in this order. An input that violates all three rules
  yields exactly three violations, and an input that satisfies all three the empty list.
\<close>

theorem validate_bet_input_reports_all:
  "validate_bet_input stake odds result =
     (if stake \<le> 0 then [''Stake must be positive''] else [])
     @ (if odds < 1 then [''Odds must be at least 1.0''] else [])
     @ (if result \<notin> {''Pending'', ''Win'', ''Loss'', ''Push''} then [''Invalid result''] else [])
   \<and> (stake \<le> 0 \<and> odds < 1 \<and> result \<notin> {''Pending'', ''Win'', ''Loss'', ''Push''} \<longrightarrow>
        length (validate_bet_input stake odds result) = 3)
   \<and> (0 < stake \<and> 1 \<le> odds \<and> result \<in> {''Pending'', ''Win'', ''Loss'', ''Push''} \<longrightarrow>
        validate_bet_input stake odds result = [])"
  by (simp add: validate_bet_input_def)

theorem validate_bet_input_reports_all_witness:
  "validate_bet_input (- 5) (1 / 2) ''X''
     = [''Stake must be positive'', ''Odds must be at least 1.0'', ''Invalid result'']
   \<and> length (validate_bet_input (- 5) (1 / 2) ''X'') = 3
   \<and> validate_bet_input 100 2 ''Win'' = []
   \<and> validate_bet_input 100 (1 / 2) ''Push'' = [''Odds must be at least 1.0'']"
  using validate_bet_input_reports_all [of "- 5" "1 / 2" "''X''"]
    validate_bet_input_reports_all [of 100 2 "''Win''"]
    validate_bet_input_reports_all [of 100 "1 / 2" "''Push''"]
  by simp

subsection \<open>Parlay odds\<close>



subsection \<open>Adding and updating a bet\<close>

text \<open>
  C4, as the code has it. On a store whose bets table has the twelve bet columns, the
  add-bet operation with valid input (validation returns no violation) appends one bet
  record under a rowid the store assigns, different from every rowid in the table, and
  returns no value (\<^verbatim>\<open>None\<close>). With invalid input it raises a ValueError whose
  message joins all violated rules with "; " and leaves the store as it was.
\<close>

theorem add_bet_inserts_returns_none:
  "(validate_bet_input stake odds result = [] \<and> bets s = Some t
      \<and> set bet_columns \<subseteq> set (map fst (tbl_columns t)) \<longrightarrow>
      add_bet json_dumps date team_a team_b bet_type sport stake odds result notes
          is_parlay parlay_legs s =
        (Inr PNone,
         s\<lparr>bets := Some (t\<lparr>tbl_rows := tbl_rows t @
               [(next_rowid t,
                 bet_values date team_a team_b bet_type sport stake odds result
                   (calculate_profit_loss stake odds result) notes is_parlay
                   (serialize_legs json_dumps parlay_legs))],
             sqlite_sequence := (if autoincrement t then next_rowid t else sqlite_sequence t)\<rparr>)\<rparr>)
      \<and> next_rowid t \<notin> set (map fst (tbl_rows t)))
   \<and> (validate_bet_input stake odds result \<noteq> [] \<longrightarrow>
      add_bet json_dumps date team_a team_b bet_type sport stake odds result notes
          is_parlay parlay_legs s =
        (Inl (ValueError (join ''; '' (validate_bet_input stake odds result))), s))"
  by (simp add: add_bet_def sql_insert_bet_def Let_def map_fst_bet_values
        filter_missing_empty next_rowid_fresh)

theorem add_bet_inserts_returns_none_witness:
  "add_bet example_dumps ''2024-01-01'' ''Home'' ''Away'' ''Moneyline'' ''Soccer'' 100 2 ''Win''
       [] False None (snd (init_db empty_db))
     = (Inr PNone, one_bet_db)
   \<and> add_bet example_dumps ''2024-01-01'' ''Home'' ''Away'' ''Moneyline'' ''Soccer'' (- 5) (1 / 2)
       ''X'' [] False None one_bet_db
     = (Inl (ValueError ''Stake must be positive; Odds must be at least 1.0; Invalid result''),
        one_bet_db)"
  using validate_example
    add_bet_inserts_returns_none [of 100 2 "''Win''" "snd (init_db empty_db)" create_bets_table
      example_dumps "''2024-01-01''" "''Home''" "''Away''" "''Moneyline''" "''Soccer''" "[]"
      False None]
    add_bet_inserts_returns_none [of "- 5" "1 / 2" "''X''" one_bet_db create_bets_table
      example_dumps "''2024-01-01''" "''Home''" "''Away''" "''Moneyline''" "''Soccer''" "[]"
      False None]
  by (simp add: init_db_empty one_bet_db_def next_rowid_def serialize_legs_def
        calculate_profit_loss_def validate_bet_input_def create_bets_table_def bet_columns_def)

text \<open>
  C4 as stated fails: the valid call below inserts the record with id 1 and returns
  \<^verbatim>\<open>None\<close>, not the identifier.
\<close>

theorem add_bet_returns_id_counterexample:
  "validate_bet_input 100 2 ''Win'' = []
   \<and> map_option (map fst \<circ> tbl_rows) (bets (snd (init_db empty_db))) = Some []
   \<and> map_option (map fst \<circ> tbl_rows)
        (bets (snd (add_bet example_dumps ''2024-01-01'' ''Home'' ''Away'' ''Moneyline''
                      ''Soccer'' 100 2 ''Win'' [] False None (snd (init_db empty_db)))))
      = Some [1]
   \<and> fst (add_bet example_dumps ''2024-01-01'' ''Home'' ''Away'' ''Moneyline'' ''Soccer'' 100 2
             ''Win'' [] False None (snd (init_db empty_db)))
      = Inr PNone
   \<and> fst (add_bet example_dumps ''2024-01-01'' ''Home'' ''Away'' ''Moneyline'' ''Soccer'' 100 2
             ''Win'' [] False None (snd (init_db empty_db)))
      \<noteq> Inr (PInt 1)"
  by (simp add: add_bet_def sql_insert_bet_def Let_def map_fst_bet_values validate_example
        init_db_empty next_rowid_def create_bets_table_def bet_columns_def)

text \<open>
  C5, as the code has it. On a store whose bets table has the column id and the twelve
  bet columns, the update-bet operation with valid fields and an id that no record has
  signals nothing: it returns normally (\<^verbatim>\<open>None\<close>, no "not found" condition), and
  the store is left unchanged.
\<close>

theorem update_bet_absent_id_silent:
  assumes "validate_bet_input stake odds result = []"
    and "bets s = Some t"
    and "set (bet_columns @ [''id'']) \<subseteq> set (map fst (tbl_columns t))"
    and "bet_id \<notin> set (map fst (tbl_rows t))"
  shows "update_bet json_dumps bet_id date team_a team_b bet_type sport stake odds result notes
          is_parlay parlay_legs s = (Inr PNone, s)"
proof -
  have "map (\<lambda>(i, old). if i = bet_id then (i, set_columns vals old) else (i, old)) (tbl_rows t)
        = tbl_rows t" for vals
    using assms(4) by (intro map_idI) force
  moreover
  have "filter (\<lambda>c. c \<notin> fst ` set (tbl_columns t)) (bet_columns @ [''id'']) = []"
    using assms(3) by (intro filter_missing_empty) simp
  ultimately show ?thesis
    using assms(1,2)
    by (simp add: update_bet_def sql_update_bet_def Let_def map_fst_bet_values)
qed

theorem update_bet_absent_id_silent_witness:
  "update_bet example_dumps 7 ''2024-01-02'' ''Reds'' ''Blues'' ''Handicap'' ''Soccer'' 100 2
       ''Win'' [] False None one_bet_db = (Inr PNone, one_bet_db)"
proof -
  have t: "bets one_bet_db
           = Some (create_bets_table
               \<lparr>tbl_rows := [(1, bet_values ''2024-01-01'' ''Home'' ''Away'' ''Moneyline''
                                  ''Soccer'' 100 2 ''Win'' 100 [] False None)],
                sqlite_sequence := 1\<rparr>)"
    by (simp add: one_bet_db_def)
  show ?thesis
    by (rule update_bet_absent_id_silent [OF validate_example t one_bet_db_columns [OF t]]) simp
qed

text \<open>
  C5 as stated fails: the store below holds the one record with id 1; the valid update
  of id 7 returns normally instead of failing with "not found".
\<close>

theorem update_bet_not_found_counterexample:
  "validate_bet_input 100 2 ''Win'' = []
   \<and> map_option (map fst \<circ> tbl_rows) (bets one_bet_db) = Some [1]
   \<and> fst (update_bet example_dumps 7 ''2024-01-02'' ''Reds'' ''Blues'' ''Handicap'' ''Soccer''
             100 2 ''Win'' [] False None one_bet_db)
      = Inr PNone
   \<and> snd (update_bet example_dumps 7 ''2024-01-02'' ''Reds'' ''Blues'' ''Handicap'' ''Soccer''
             100 2 ''Win'' [] False None one_bet_db)
      = one_bet_db"
  by (simp add: update_bet_def sql_update_bet_def Let_def map_fst_bet_values validate_example
        one_bet_db_def create_bets_table_def bet_columns_def)

subsection \<open>Metrics\<close>

text \<open>
  C6. When no record of the ledger snapshot has the result Win or Loss (Pending and Push
  records may exist), the advanced metrics are the empty dict, not zero-filled metrics;
  when at least one record has, they are a dict with the eight metric keys.
\<close>

theorem advanced_metrics_empty_unless_settled:
  "((\<forall>r \<in> set df. col_result r \<noteq> ''Win'' \<and> col_result r \<noteq> ''Loss'') \<longrightarrow>
      calculate_advanced_metrics df = Some [])
   \<and> ((\<exists>r \<in> set df. col_result r = ''Win'' \<or> col_result r = ''Loss'') \<longrightarrow>
      map_option (map fst) (calculate_advanced_metrics df) =
        Some [''avg_win_odds'', ''avg_loss_odds'', ''biggest_win'', ''biggest_loss'',
              ''expected_value'', ''avg_stake'', ''profit_factor'', ''total_settled_bets''])"
proof (intro conjI impI)
  assume "\<forall>r \<in> set df. col_result r \<noteq> ''Win'' \<and> col_result r \<noteq> ''Loss''"
  then have "filter (\<lambda>r. col_result r \<in> set [''Win'', ''Loss'']) df = []"
    by (simp add: filter_empty_conv)
  then show "calculate_advanced_metrics df = Some []"
    by (simp add: calculate_advanced_metrics_def)
next
  assume "\<exists>r \<in> set df. col_result r = ''Win'' \<or> col_result r = ''Loss''"
  then have "filter (\<lambda>r. col_result r \<in> set [''Win'', ''Loss'']) df \<noteq> []"
    by (auto simp: filter_empty_conv)
  from advanced_metrics_settled [OF this]
  show "map_option (map fst) (calculate_advanced_metrics df) =
        Some [''avg_win_odds'', ''avg_loss_odds'', ''biggest_win'', ''biggest_loss'',
              ''expected_value'', ''avg_stake'', ''profit_factor'', ''total_settled_bets'']"
    by auto
qed

theorem advanced_metrics_empty_unless_settled_witness:
  "calculate_advanced_metrics [single_bet 1 100 2 ''Pending'', single_bet 2 50 3 ''Push'']
     = Some []
   \<and> map_option (map fst)
        (calculate_advanced_metrics [single_bet 1 100 2 ''Pending'', single_bet 2 50 3 ''Loss''])
      = Some [''avg_win_odds'', ''avg_loss_odds'', ''biggest_win'', ''biggest_loss'',
              ''expected_value'', ''avg_stake'', ''profit_factor'', ''total_settled_bets'']"
  using advanced_metrics_empty_unless_settled
          [of "[single_bet 1 100 2 ''Pending'', single_bet 2 50 3 ''Push'']"]
    advanced_metrics_empty_unless_settled
          [of "[single_bet 1 100 2 ''Pending'', single_bet 2 50 3 ''Loss'']"]
  by (simp add: single_bet_def)

text \<open>
  C7. For every ledger snapshot with a settled record (result Win or Loss) and no
  negative stake, the profit factor is computed without a division by zero; it is
  infinite when the stakes of the losses sum to 0, and otherwise (the sum of the wins'
  profit_loss plus the sum of the wins' stake) divided by the sum of the losses' stake.
\<close>

theorem profit_factor_formula:
  assumes "\<exists>r \<in> set df. col_result r = ''Win'' \<or> col_result r = ''Loss''"
    and "\<forall>r \<in> set df. 0 \<le> col_stake r"
  shows "\<exists>metrics. calculate_advanced_metrics df = Some metrics
     \<and> map_of metrics ''profit_factor'' =
       Some (if sum_list (map col_stake (filter (\<lambda>r. col_result r = ''Loss'') df)) = 0
             then PosInf
             else Fin ((sum_list (map col_profit_loss (filter (\<lambda>r. col_result r = ''Win'') df))
                        + sum_list (map col_stake (filter (\<lambda>r. col_result r = ''Win'') df)))
                       / sum_list (map col_stake (filter (\<lambda>r. col_result r = ''Loss'') df))))"
proof -
  from assms(1) have "filter (\<lambda>r. col_result r \<in> set [''Win'', ''Loss'']) df \<noteq> []"
    by (auto simp: filter_empty_conv)
  from advanced_metrics_settled [OF this]
  obtain metrics where m: "calculate_advanced_metrics df = Some metrics"
    and pf: "map_of metrics ''profit_factor'' =
       Some (if sum_list (map col_stake (filter (\<lambda>r. col_result r = ''Loss'') df)) > 0
             then Fin ((sum_list (map col_profit_loss (filter (\<lambda>r. col_result r = ''Win'') df))
                        + sum_list (map col_stake (filter (\<lambda>r. col_result r = ''Win'') df)))
                       / sum_list (map col_stake (filter (\<lambda>r. col_result r = ''Loss'') df)))
             else PosInf)"
    by auto
  have "0 \<le> sum_list (map col_stake (filter (\<lambda>r. col_result r = ''Loss'') df))"
    using assms(2) by (intro sum_list_nonneg) simp
  with m pf show ?thesis by auto
qed

theorem profit_factor_formula_witness:
  "(\<exists>metrics.
      calculate_advanced_metrics [single_bet 1 100 2 ''Win'', single_bet 2 50 3 ''Loss'']
        = Some metrics
      \<and> map_of metrics ''profit_factor'' = Some (Fin 4))
   \<and> (\<exists>metrics.
      calculate_advanced_metrics [single_bet 1 100 2 ''Win'', single_bet 2 50 3 ''Pending'']
        = Some metrics
      \<and> map_of metrics ''profit_factor'' = Some PosInf)"
  using profit_factor_formula [of "[single_bet 1 100 2 ''Win'', single_bet 2 50 3 ''Loss'']"]
    profit_factor_formula [of "[single_bet 1 100 2 ''Win'', single_bet 2 50 3 ''Pending'']"]
  by (simp add: single_bet_def calculate_profit_loss_def)

text \<open>
  C8. For every ledger snapshot with no negative stake, the basic metrics are computed
  without a division by zero, and their ROI is 0 when the total stake of all records is
  0 and otherwise the total profit_loss divided by the total stake, times 100.
\<close>

theorem roi_formula:
  assumes "\<forall>r \<in> set df. 0 \<le> col_stake r"
  shows "\<exists>total_pl win_rate n.
     calculate_metrics df =
       Some (total_pl,
             (if sum_list (map col_stake df) = 0 then 0
              else sum_list (map col_profit_loss df) / sum_list (map col_stake df) * 100),
             win_rate, n)"
proof -
  have "0 \<le> sum_list (map col_stake df)"
    using assms by (intro sum_list_nonneg) simp
  then show ?thesis
    by (cases "df = []") (auto simp: calculate_metrics_def Let_def py_div_def mean_def)
qed

theorem roi_formula_witness:
  "(\<exists>total_pl win_rate n.
      calculate_metrics [single_bet 1 100 2 ''Win'', single_bet 2 50 3 ''Loss'']
        = Some (total_pl, 100 / 3, win_rate, n))
   \<and> (\<exists>total_pl win_rate n.
      calculate_metrics [single_bet 1 0 2 ''Pending''] = Some (total_pl, 0, win_rate, n))
   \<and> (\<exists>total_pl win_rate n. calculate_metrics [] = Some (total_pl, 0, win_rate, n))"
  using roi_formula [of "[single_bet 1 100 2 ''Win'', single_bet 2 50 3 ''Loss'']"]
    roi_formula [of "[single_bet 1 0 2 ''Pending'']"] roi_formula [of "[]"]
  by (simp add: single_bet_def calculate_profit_loss_def)

subsection \<open>Schema and bankroll\<close>

text \<open>
  C9. The schema-ensure operation is idempotent: from any store, a second run in
  succession returns normally and leaves the whole store (the columns, every row of every
  table, the bankroll balance) as the first run left it. No run changes the rows of an
  existing bets table, nor a bankroll table that has the row with id 1.
\<close>

theorem init_db_idempotent:
  "init_db (snd (init_db s)) = (Inr PNone, snd (init_db s))
   \<and> (bets s = Some t \<longrightarrow> map_option tbl_rows (bets (snd (init_db s))) = Some (tbl_rows t))
   \<and> (bankroll s = Some rs \<and> 1 \<in> fst ` set rs \<longrightarrow> bankroll (snd (init_db s)) = Some rs)"
  by (simp add: init_db_twice init_db_keeps_rows init_db_keeps_bets)

theorem init_db_idempotent_witness:
  "init_db (snd (init_db empty_db)) = (Inr PNone, snd (init_db empty_db))
   \<and> map_option tbl_rows (bets (snd (init_db one_bet_db)))
     = Some [(1, bet_values ''2024-01-01'' ''Home'' ''Away'' ''Moneyline'' ''Soccer''
                   100 2 ''Win'' 100 [] False None)]
   \<and> bankroll (snd (init_db (snd (update_bankroll 25 ''add'' one_bet_db)))) = Some [(1, 25)]"
  using init_db_idempotent [of empty_db create_bets_table "[]"]
    init_db_idempotent [of one_bet_db
      "create_bets_table
         \<lparr>tbl_rows := [(1, bet_values ''2024-01-01'' ''Home'' ''Away'' ''Moneyline'' ''Soccer''
                           100 2 ''Win'' 100 [] False None)],
          sqlite_sequence := 1\<rparr>" "[(1, 0)]"]
    init_db_idempotent [of "snd (update_bankroll 25 ''add'' one_bet_db)" create_bets_table
      "[(1, 25)]"]
  by (simp add: one_bet_db_def update_bankroll_def sql_update_balance_def)

text \<open>
  C10. For every operation name other than "add", "subtract" and "set", and every amount,
  the bankroll-adjust operation leaves the store, and so the balance, unchanged and
  returns normally: the unrecognised operation is silently ignored.
\<close>

theorem update_bankroll_unknown_operation:
  assumes "operation \<notin> {''add'', ''subtract'', ''set''}"
  shows "update_bankroll amount operation s = (Inr PNone, s)"
  using assms by (simp add: update_bankroll_def)

theorem update_bankroll_unknown_operation_witness:
  "update_bankroll 10 ''multiply'' one_bet_db = (Inr PNone, one_bet_db)
   \<and> bankroll (snd (update_bankroll 10 ''multiply'' one_bet_db)) = Some [(1, 0)]"
  using update_bankroll_unknown_operation [of "''multiply''" 10 one_bet_db]
  by (simp add: one_bet_db_def)

end
